theory Spec2Isabelle
  imports Complex_Main
begin

section \<open>Values exchanged with the transaction-history API\<close>

text \<open>
  \<^verbatim>\<open>resp.json()\<close> hands the tracer a Python object built from JSON. The upstream API
  documents every number as an integer, so numbers are integers here. An object is kept
  as the list of its items in insertion order; a lookup takes the first item with the key.
\<close>

datatype json =
    JNull
  | JBool bool
  | JInt int
  | JStr string
  | JList "json list"
  | JObj "(string \<times> json) list"

text \<open>
  The exceptions the tracer can meet. \<open>OutOfRange\<close> stands for what
  \<^verbatim>\<open>datetime.fromtimestamp\<close> raises when the instant has no year in 1..9999
  (OverflowError, ValueError or OSError); nothing in the tracer tells them apart.
\<close>

datatype error =
    TypeError
  | ValueError
  | AttributeError
  | KeyError
  | ZeroDivisionError
  | OutOfRange

definition bind_err :: "error + 'a \<Rightarrow> ('a \<Rightarrow> error + 'b) \<Rightarrow> error + 'b" where
  "bind_err r f = (case r of Inl e \<Rightarrow> Inl e | Inr x \<Rightarrow> f x)"

text \<open>\<^verbatim>\<open>d.get(key, default)\<close> on a dict.\<close>

definition dict_get :: "(string \<times> json) list \<Rightarrow> string \<Rightarrow> json \<Rightarrow> json" where
  "dict_get kvs k dflt = (case map_of kvs k of Some v \<Rightarrow> v | None \<Rightarrow> dflt)"

text \<open>\<^verbatim>\<open>x.get(key, default)\<close> on any value: only a dict has the method.\<close>

definition py_get :: "json \<Rightarrow> string \<Rightarrow> json \<Rightarrow> error + json" where
  "py_get x k dflt = (case x of JObj kvs \<Rightarrow> Inr (dict_get kvs k dflt) | _ \<Rightarrow> Inl AttributeError)"

text \<open>Truth value of a Python object, as \<^verbatim>\<open>x or []\<close> and \<^verbatim>\<open>not data\<close> test it.\<close>

fun py_truthy :: "json \<Rightarrow> bool" where
  "py_truthy JNull = False"
| "py_truthy (JBool b) = b"
| "py_truthy (JInt n) = (n \<noteq> 0)"
| "py_truthy (JStr s) = (s \<noteq> [])"
| "py_truthy (JList xs) = (xs \<noteq> [])"
| "py_truthy (JObj kvs) = (kvs \<noteq> [])"

text \<open>\<^verbatim>\<open>tx.get(key) or []\<close>.\<close>

definition get_or_empty :: "(string \<times> json) list \<Rightarrow> string \<Rightarrow> json" where
  "get_or_empty kvs k = (let v = dict_get kvs k JNull in if py_truthy v then v else JList [])"

text \<open>
  The items a \<^verbatim>\<open>for\<close> loop draws from a value: the elements of a list, the
  characters of a string, the keys of a dict; anything else is not iterable.
\<close>

fun py_iter :: "json \<Rightarrow> error + json list" where
  "py_iter (JList xs) = Inr xs"
| "py_iter (JStr s) = Inr (map (\<lambda>c. JStr [c]) s)"
| "py_iter (JObj kvs) = Inr (map (\<lambda>kv. JStr (fst kv)) kvs)"
| "py_iter _ = Inl TypeError"

text \<open>
  \<^verbatim>\<open>int(x)\<close>. What the built-in makes of a string (signs, blanks, underscores, digit
  limits) is not code of the tracer and is taken as the parameter \<open>int_of_str\<close>, with
  \<open>None\<close> for a ValueError.
\<close>

fun py_int :: "(string \<Rightarrow> int option) \<Rightarrow> json \<Rightarrow> error + int" where
  "py_int int_of_str (JInt n) = Inr n"
| "py_int int_of_str (JBool b) = Inr (if b then 1 else 0)"
| "py_int int_of_str (JStr s) = (case int_of_str s of Some n \<Rightarrow> Inr n | None \<Rightarrow> Inl ValueError)"
| "py_int int_of_str _ = Inl TypeError"

section \<open>Timestamps\<close>

text \<open>
  Decimal rendering with zero padding, as \<^verbatim>\<open>%04d\<close>, \<^verbatim>\<open>%02d\<close> and \<^verbatim>\<open>%06d\<close> give it
  for a number that fits the width; the fields of a datetime always do.
\<close>

fun digits_of :: "nat \<Rightarrow> nat \<Rightarrow> string" where
  "digits_of 0 n = []"
| "digits_of (Suc k) n = digits_of k (n div 10) @ [char_of (48 + n mod 10)]"

definition pad :: "nat \<Rightarrow> nat \<Rightarrow> string" where
  "pad w n = digits_of w n"

text \<open>
  The proleptic Gregorian date of a day count from 1970-01-01, which is what
  \<^verbatim>\<open>datetime.fromtimestamp(t, tz=timezone.utc)\<close> computes for the whole days of \<open>t\<close>.
\<close>

definition civil_from_days :: "int \<Rightarrow> int \<times> int \<times> int" where
  "civil_from_days days =
     (let z = days + 719468;
          era = z div 146097;
          doe = z - era * 146097;
          yoe = (doe - doe div 1460 + doe div 36524 - doe div 146096) div 365;
          doy = doe - (365 * yoe + yoe div 4 - yoe div 100);
          mp = (5 * doy + 2) div 153;
          d = doy - (153 * mp + 2) div 5 + 1;
          m = (if mp < 10 then mp + 3 else mp - 9);
          y = yoe + era * 400 + (if m \<le> 2 then 1 else 0)
      in (y, m, d))"

text \<open>
  \<^verbatim>\<open>datetime.fromtimestamp(ms / 1000, tz=timezone.utc).isoformat()\<close>. The argument is
  whatever \<^verbatim>\<open>tx.get("block_time", 0)\<close> returned; only a number can be divided.
  \<^verbatim>\<open>ms / 1000\<close> is a binary64 division that \<^verbatim>\<open>fromtimestamp\<close> rounds to whole
  microseconds; the model takes the exact quotient, which is what Python obtains while
  the float resolves half a microsecond (instants within \<open>2 ^ 32\<close> seconds of the epoch,
  the years 1834 to 2105, at least).
\<close>

definition format_ms :: "int \<Rightarrow> error + string" where
  "format_ms ms =
     (let us = ms * 1000;
          days = us div 86400000000;
          rest = us mod 86400000000;
          secs = rest div 1000000;
          micro = rest mod 1000000;
          (y, m, d) = civil_from_days days
      in if y < 1 \<or> 9999 < y then Inl OutOfRange
         else Inr (pad 4 (nat y) @ ''-'' @ pad 2 (nat m) @ ''-'' @ pad 2 (nat d) @ ''T''
                   @ pad 2 (nat (secs div 3600)) @ '':'' @ pad 2 (nat (secs mod 3600 div 60))
                   @ '':'' @ pad 2 (nat (secs mod 60))
                   @ (if micro = 0 then [] else ''.'' @ pad 6 (nat micro))
                   @ ''+00:00''))"

fun format_timestamp :: "json \<Rightarrow> error + string" where
  "format_timestamp (JInt ms) = format_ms ms"
| "format_timestamp (JBool b) = format_ms (if b then 1 else 0)"
| "format_timestamp _ = Inl TypeError"

text \<open>
  A \<^verbatim>\<open>datetime\<close> object: its fields and, for an aware one, the offset of its
  \<^verbatim>\<open>tzinfo\<close> from UTC in microseconds.
\<close>

record datetime =
  year :: nat
  month :: nat
  day :: nat
  hour :: nat
  minute :: nat
  second :: nat
  microsecond :: nat
  tzinfo :: "int option"

definition CUTOFF_DATE :: datetime where
  "CUTOFF_DATE = \<lparr>year = 2022, month = 1, day = 1, hour = 0, minute = 0, second = 0,
                  microsecond = 0, tzinfo = None\<rparr>"

definition days_from_civil :: "int \<Rightarrow> int \<Rightarrow> int \<Rightarrow> int" where
  "days_from_civil y m d =
     (let y' = (if m \<le> 2 then y - 1 else y);
          era = y' div 400;
          yoe = y' - era * 400;
          doy = (153 * (if 2 < m then m - 3 else m + 9) + 2) div 5 + d - 1;
          doe = yoe * 365 + yoe div 4 - yoe div 100 + doy
      in era * 146097 + doe - 719468)"

definition wall_us :: "datetime \<Rightarrow> int" where
  "wall_us dt =
     (((days_from_civil (int (year dt)) (int (month dt)) (int (day dt)) * 24 + int (hour dt)) * 60
        + int (minute dt)) * 60 + int (second dt)) * 1000000 + int (microsecond dt)"

text \<open>
  \<^verbatim>\<open>a < b\<close> on datetimes: two naive ones compare by their fields, two aware ones by
  their instants, and a naive one against an aware one raises TypeError.
\<close>

definition datetime_lt :: "datetime \<Rightarrow> datetime \<Rightarrow> error + bool" where
  "datetime_lt a b =
     (case (tzinfo a, tzinfo b) of
        (None, None) \<Rightarrow> Inr (wall_us a < wall_us b)
      | (Some oa, Some ob) \<Rightarrow> Inr (wall_us a - oa < wall_us b - ob)
      | _ \<Rightarrow> Inl TypeError)"

text \<open>\<^verbatim>\<open>timestamp.replace("Z", "+00:00")\<close>.\<close>

definition replace_Z :: "string \<Rightarrow> string" where
  "replace_Z s = concat (map (\<lambda>c. if c = CHR ''Z'' then ''+00:00'' else [c]) s)"

text \<open>
  \<^verbatim>\<open>is_before_cutoff\<close>. The grammar \<^verbatim>\<open>datetime.fromisoformat\<close> accepts depends on the
  Python release, so the parser is the parameter \<open>fromisoformat\<close>. The result is paired
  with the lines printed; any exception of the \<^verbatim>\<open>try\<close> body ends in the handler.
\<close>

definition is_before_cutoff :: "(string \<Rightarrow> error + datetime) \<Rightarrow> string \<Rightarrow> bool \<times> string list" where
  "is_before_cutoff fromisoformat timestamp =
     (case bind_err (fromisoformat (replace_Z timestamp)) (\<lambda>dt. datetime_lt dt CUTOFF_DATE) of
        Inr b \<Rightarrow> (b, [])
      | Inl e \<Rightarrow> (False, [''Timestamp parsing failed: '' @ timestamp]))"

section \<open>Flow edges\<close>

text \<open>
  One appended record. \<open>amount_kas\<close> is the exact value of the expression the code
  evaluates in binary64; rounding and float overflow are outside the model.
\<close>

record flow_edge =
  tx_id :: json
  timestamp :: string
  sender :: json
  recipient :: json
  amount_kas :: rat

text \<open>\<^verbatim>\<open>tx.get("transaction_id", tx.get("txId", "UNKNOWN"))\<close>.\<close>

definition tx_id_of :: "(string \<times> json) list \<Rightarrow> json" where
  "tx_id_of kvs = dict_get kvs ''transaction_id'' (dict_get kvs ''txId'' (JStr ''UNKNOWN''))"

text \<open>\<^verbatim>\<open>format_timestamp(tx.get("block_time", 0))\<close>.\<close>

definition tx_timestamp :: "(string \<times> json) list \<Rightarrow> error + string" where
  "tx_timestamp kvs = format_timestamp (dict_get kvs ''block_time'' (JInt 0))"

text \<open>The fields read from one input and one output.\<close>

definition in_sender :: "json \<Rightarrow> error + json" where
  "in_sender inp = py_get inp ''previous_outpoint_address'' (JStr ''UNKNOWN'')"

definition in_amount :: "(string \<Rightarrow> int option) \<Rightarrow> json \<Rightarrow> error + int" where
  "in_amount int_of_str inp =
     bind_err (py_get inp ''previous_outpoint_amount'' (JInt 0)) (py_int int_of_str)"

definition out_recipient :: "json \<Rightarrow> error + json" where
  "out_recipient out = py_get out ''script_public_key_address'' (JStr ''UNKNOWN'')"

definition out_amount :: "(string \<Rightarrow> int option) \<Rightarrow> json \<Rightarrow> error + int" where
  "out_amount int_of_str out = bind_err (py_get out ''amount'' (JInt 0)) (py_int int_of_str)"

section \<open>Attribution\<close>

text \<open>
  \<open>input_summary\<close> is a dict keyed by whatever the sender field holds. A list or a dict
  cannot be a key, and \<^verbatim>\<open>True\<close> and \<^verbatim>\<open>1\<close> (\<^verbatim>\<open>False\<close> and \<^verbatim>\<open>0\<close>) are one key.
  The dict is kept as its items in insertion order.
\<close>

fun py_hashable :: "json \<Rightarrow> bool" where
  "py_hashable (JList xs) = False"
| "py_hashable (JObj kvs) = False"
| "py_hashable _ = True"

fun key_norm :: "json \<Rightarrow> json" where
  "key_norm (JBool b) = JInt (if b then 1 else 0)"
| "key_norm v = v"

definition key_eq :: "json \<Rightarrow> json \<Rightarrow> bool" where
  "key_eq a b = (key_norm a = key_norm b)"

fun summary_get :: "(json \<times> int) list \<Rightarrow> json \<Rightarrow> int \<Rightarrow> int" where
  "summary_get [] k dflt = dflt"
| "summary_get ((k', v) # rest) k dflt = (if key_eq k' k then v else summary_get rest k dflt)"

fun summary_set :: "(json \<times> int) list \<Rightarrow> json \<Rightarrow> int \<Rightarrow> (json \<times> int) list" where
  "summary_set [] k v = [(k, v)]"
| "summary_set ((k', v') # rest) k v =
     (if key_eq k' k then (k', v) # rest else (k', v') # summary_set rest k v)"

text \<open>The loop over \<open>inputs\<close> that fills \<open>input_summary\<close>.\<close>

fun build_input_summary ::
  "(string \<Rightarrow> int option) \<Rightarrow> json list \<Rightarrow> (json \<times> int) list \<Rightarrow> error + (json \<times> int) list" where
  "build_input_summary int_of_str [] input_summary = Inr input_summary"
| "build_input_summary int_of_str (inp # rest) input_summary =
     (case in_sender inp of
        Inl e \<Rightarrow> Inl e
      | Inr sndr \<Rightarrow>
          if \<not> py_hashable sndr then Inl TypeError
          else (case in_amount int_of_str inp of
                  Inl e \<Rightarrow> Inl e
                | Inr n \<Rightarrow>
                    build_input_summary int_of_str rest
                      (summary_set input_summary sndr (summary_get input_summary sndr 0 + n))))"

text \<open>\<^verbatim>\<open>contribution / total_input_sompi\<close>.\<close>

definition true_div :: "int \<Rightarrow> int \<Rightarrow> error + rat" where
  "true_div a b = (if b = 0 then Inl ZeroDivisionError else Inr (of_int a / of_int b))"

text \<open>The record appended for one item of \<open>input_summary\<close>, as a function of the item.\<close>

definition edge_for :: "json \<Rightarrow> string \<Rightarrow> int \<Rightarrow> json \<Rightarrow> int \<Rightarrow> json \<times> int \<Rightarrow> flow_edge" where
  "edge_for txid ts total_input rcpt amount_sompi p =
     \<lparr>tx_id = txid, timestamp = ts, sender = fst p, recipient = rcpt,
      amount_kas = of_int amount_sompi * (of_int (snd p) / of_int total_input) / 100000000\<rparr>"

text \<open>The loop over \<open>input_summary.items()\<close> for one output.\<close>

fun attribute_output ::
  "json \<Rightarrow> string \<Rightarrow> int \<Rightarrow> json \<Rightarrow> int \<Rightarrow> (json \<times> int) list \<Rightarrow> flow_edge list
     \<Rightarrow> error + flow_edge list" where
  "attribute_output txid ts total_input rcpt amount_sompi [] records = Inr records"
| "attribute_output txid ts total_input rcpt amount_sompi ((sndr, contribution) # rest) records =
     (case true_div contribution total_input of
        Inl e \<Rightarrow> Inl e
      | Inr weight \<Rightarrow>
          attribute_output txid ts total_input rcpt amount_sompi rest
            (records @ [\<lparr>tx_id = txid, timestamp = ts, sender = sndr, recipient = rcpt,
                         amount_kas = of_int amount_sompi * weight / 100000000\<rparr>]))"

text \<open>The loop over \<open>outputs\<close>.\<close>

fun attribute_outputs ::
  "(string \<Rightarrow> int option) \<Rightarrow> json \<Rightarrow> string \<Rightarrow> int \<Rightarrow> (json \<times> int) list \<Rightarrow> json list
     \<Rightarrow> flow_edge list \<Rightarrow> error + flow_edge list" where
  "attribute_outputs int_of_str txid ts total_input input_summary [] records = Inr records"
| "attribute_outputs int_of_str txid ts total_input input_summary (out # rest) records =
     (case out_recipient out of
        Inl e \<Rightarrow> Inl e
      | Inr rcpt \<Rightarrow>
          (case out_amount int_of_str out of
             Inl e \<Rightarrow> Inl e
           | Inr amount_sompi \<Rightarrow>
               (case attribute_output txid ts total_input rcpt amount_sompi input_summary records of
                  Inl e \<Rightarrow> Inl e
                | Inr records' \<Rightarrow>
                    attribute_outputs int_of_str txid ts total_input input_summary rest records')))"

text \<open>
  The body of \<^verbatim>\<open>for tx in data\<close> in \<^verbatim>\<open>fetch_transactions_all_participants\<close>: an entry
  that is not a dict is skipped; an exception leaves the function, and the records with it.
\<close>

definition process_tx :: "(string \<Rightarrow> int option) \<Rightarrow> json \<Rightarrow> flow_edge list \<Rightarrow> error + flow_edge list" where
  "process_tx int_of_str tx records =
     (case tx of
        JObj kvs \<Rightarrow>
          (case tx_timestamp kvs of
             Inl e \<Rightarrow> Inl e
           | Inr ts \<Rightarrow>
               (case bind_err (py_iter (get_or_empty kvs ''inputs''))
                       (\<lambda>inputs. build_input_summary int_of_str inputs []) of
                  Inl e \<Rightarrow> Inl e
                | Inr input_summary \<Rightarrow>
                    let total_input_sompi = sum_list (map snd input_summary) in
                    if total_input_sompi = 0 then Inr records
                    else (case py_iter (get_or_empty kvs ''outputs'') of
                            Inl e \<Rightarrow> Inl e
                          | Inr outputs \<Rightarrow>
                              attribute_outputs int_of_str (tx_id_of kvs) ts total_input_sompi
                                input_summary outputs records)))
      | _ \<Rightarrow> Inr records)"

fun process_page :: "(string \<Rightarrow> int option) \<Rightarrow> json list \<Rightarrow> flow_edge list \<Rightarrow> error + flow_edge list" where
  "process_page int_of_str [] records = Inr records"
| "process_page int_of_str (tx # rest) records =
     (case process_tx int_of_str tx records of
        Inl e \<Rightarrow> Inl e
      | Inr records' \<Rightarrow> process_page int_of_str rest records')"

section \<open>The page walk\<close>

text \<open>
  The remote API is a function of the request number, the address and the cursor sent;
  \<open>None\<close> is any exception of the \<^verbatim>\<open>try\<close> block (transport failure, status that is
  not 2xx, body that is not JSON), \<open>Some data\<close> the decoded body.
\<close>

type_synonym api = "nat \<Rightarrow> string \<Rightarrow> json \<Rightarrow> json option"

text \<open>
  \<^verbatim>\<open>for _ in range(max_pages)\<close> of \<^verbatim>\<open>fetch_transactions_all_participants\<close>, entered at
  iteration \<open>i\<close> with \<open>before\<close> held by \<open>cursor\<close>. The result is the number of
  requests issued and either the exception that left the function or the records.
\<close>

function fetch_loop ::
  "(string \<Rightarrow> int option) \<Rightarrow> api \<Rightarrow> string \<Rightarrow> nat \<Rightarrow> nat \<Rightarrow> json \<Rightarrow> flow_edge list
     \<Rightarrow> nat \<times> (error + flow_edge list)" where
  "fetch_loop int_of_str api address max_pages i cursor records =
     (if max_pages \<le> i then (i, Inr records)
      else (case api i address cursor of
              None \<Rightarrow> (Suc i, Inr records)
            | Some (JList data) \<Rightarrow>
                if data = [] then (Suc i, Inr records)
                else (case process_page int_of_str data records of
                        Inl e \<Rightarrow> (Suc i, Inl e)
                      | Inr records' \<Rightarrow>
                          (case py_get (last data) ''block_time'' cursor of
                             Inl e \<Rightarrow> (Suc i, Inl e)
                           | Inr cursor' \<Rightarrow>
                               fetch_loop int_of_str api address max_pages (Suc i) cursor' records'))
            | Some _ \<Rightarrow> (Suc i, Inr records)))"
  by pat_completeness auto
termination
  by (relation "measure (\<lambda>(int_of_str, api, address, max_pages, i, cursor, records). max_pages - i)") auto

declare fetch_loop.simps [simp del]

text \<open>\<open>now\<close> is \<^verbatim>\<open>int(datetime.now(tz=timezone.utc).timestamp() * 1000)\<close>.\<close>

definition fetch_transactions_all_participants ::
  "(string \<Rightarrow> int option) \<Rightarrow> api \<Rightarrow> int \<Rightarrow> string \<Rightarrow> nat \<Rightarrow> nat \<times> (error + flow_edge list)" where
  "fetch_transactions_all_participants int_of_str api now address max_pages =
     fetch_loop int_of_str api address max_pages 0 (JInt now) []"

section \<open>The variant with the cutoff test\<close>

text \<open>The loop over \<open>outputs\<close> inside one input of \<^verbatim>\<open>fetch_transactions\<close>.\<close>

fun pair_outputs ::
  "(string \<Rightarrow> int option) \<Rightarrow> json \<Rightarrow> string \<Rightarrow> json \<Rightarrow> json list \<Rightarrow> flow_edge list
     \<Rightarrow> error + flow_edge list" where
  "pair_outputs int_of_str txid ts sndr [] records = Inr records"
| "pair_outputs int_of_str txid ts sndr (out # rest) records =
     (case out_recipient out of
        Inl e \<Rightarrow> Inl e
      | Inr rcpt \<Rightarrow>
          (case out_amount int_of_str out of
             Inl e \<Rightarrow> Inl e
           | Inr amount_sompi \<Rightarrow>
               pair_outputs int_of_str txid ts sndr rest
                 (records @ [\<lparr>tx_id = txid, timestamp = ts, sender = sndr, recipient = rcpt,
                              amount_kas = of_int amount_sompi / 100000000\<rparr>])))"

text \<open>The loop over \<open>inputs\<close>; \<open>outputs\<close> is iterated anew for every input.\<close>

fun pair_inputs ::
  "(string \<Rightarrow> int option) \<Rightarrow> json \<Rightarrow> string \<Rightarrow> json \<Rightarrow> json list \<Rightarrow> flow_edge list
     \<Rightarrow> error + flow_edge list" where
  "pair_inputs int_of_str txid ts outputs [] records = Inr records"
| "pair_inputs int_of_str txid ts outputs (inp # rest) records =
     (case in_sender inp of
        Inl e \<Rightarrow> Inl e
      | Inr sndr \<Rightarrow>
          (case bind_err (py_iter outputs) (\<lambda>outs. pair_outputs int_of_str txid ts sndr outs records) of
             Inl e \<Rightarrow> Inl e
           | Inr records' \<Rightarrow> pair_inputs int_of_str txid ts outputs rest records'))"

text \<open>
  The body of \<^verbatim>\<open>for tx in data\<close> in \<^verbatim>\<open>fetch_transactions\<close>; the flag returned is
  \<open>foundcutoff\<close>, set just before the \<^verbatim>\<open>break\<close>.
\<close>

definition process_tx_cutoff ::
  "(string \<Rightarrow> int option) \<Rightarrow> (string \<Rightarrow> error + datetime) \<Rightarrow> json \<Rightarrow> flow_edge list
     \<Rightarrow> error + bool \<times> flow_edge list" where
  "process_tx_cutoff int_of_str fromisoformat tx records =
     (case tx of
        JObj kvs \<Rightarrow>
          (case tx_timestamp kvs of
             Inl e \<Rightarrow> Inl e
           | Inr ts \<Rightarrow>
               if fst (is_before_cutoff fromisoformat ts) then Inr (True, records)
               else (case bind_err (py_iter (get_or_empty kvs ''inputs''))
                            (\<lambda>inputs. pair_inputs int_of_str (tx_id_of kvs) ts
                                        (get_or_empty kvs ''outputs'') inputs records) of
                       Inl e \<Rightarrow> Inl e
                     | Inr records' \<Rightarrow> Inr (False, records')))
      | _ \<Rightarrow> Inr (False, records))"

fun process_page_cutoff ::
  "(string \<Rightarrow> int option) \<Rightarrow> (string \<Rightarrow> error + datetime) \<Rightarrow> json list \<Rightarrow> flow_edge list
     \<Rightarrow> error + bool \<times> flow_edge list" where
  "process_page_cutoff int_of_str fromisoformat [] records = Inr (False, records)"
| "process_page_cutoff int_of_str fromisoformat (tx # rest) records =
     (case process_tx_cutoff int_of_str fromisoformat tx records of
        Inl e \<Rightarrow> Inl e
      | Inr (foundcutoff, records') \<Rightarrow>
          if foundcutoff then Inr (True, records')
          else process_page_cutoff int_of_str fromisoformat rest records')"

function fetch_loop_cutoff ::
  "(string \<Rightarrow> int option) \<Rightarrow> (string \<Rightarrow> error + datetime) \<Rightarrow> api \<Rightarrow> string \<Rightarrow> nat \<Rightarrow> nat
     \<Rightarrow> json \<Rightarrow> flow_edge list \<Rightarrow> nat \<times> (error + flow_edge list)" where
  "fetch_loop_cutoff int_of_str fromisoformat api address max_pages i cursor records =
     (if max_pages \<le> i then (i, Inr records)
      else (case api i address cursor of
              None \<Rightarrow> (Suc i, Inr records)
            | Some (JList data) \<Rightarrow>
                if data = [] then (Suc i, Inr records)
                else (case process_page_cutoff int_of_str fromisoformat data records of
                        Inl e \<Rightarrow> (Suc i, Inl e)
                      | Inr (foundcutoff, records') \<Rightarrow>
                          if foundcutoff then (Suc i, Inr records')
                          else (case py_get (last data) ''block_time'' cursor of
                                  Inl e \<Rightarrow> (Suc i, Inl e)
                                | Inr cursor' \<Rightarrow>
                                    fetch_loop_cutoff int_of_str fromisoformat api address max_pages
                                      (Suc i) cursor' records'))
            | Some _ \<Rightarrow> (Suc i, Inr records)))"
  by pat_completeness auto
termination
  by (relation "measure (\<lambda>(int_of_str, fromisoformat, api, address, max_pages, i, cursor, records).
                            max_pages - i)") auto

declare fetch_loop_cutoff.simps [simp del]

definition fetch_transactions ::
  "(string \<Rightarrow> int option) \<Rightarrow> (string \<Rightarrow> error + datetime) \<Rightarrow> api \<Rightarrow> int \<Rightarrow> string \<Rightarrow> nat
     \<Rightarrow> nat \<times> (error + flow_edge list)" where
  "fetch_transactions int_of_str fromisoformat api now address max_pages =
     fetch_loop_cutoff int_of_str fromisoformat api address max_pages 0 (JInt now) []"

section \<open>The entry point\<close>

text \<open>
  \<^verbatim>\<open>txs[(txs["sender"] == address) | (txs["recipient"] == address)]\<close>. A DataFrame built
  from no records has no columns, so selecting \<^verbatim>\<open>"sender"\<close> raises KeyError; otherwise
  the rows whose sender or recipient is the address string are kept, in order.
\<close>

definition involving :: "string \<Rightarrow> flow_edge list \<Rightarrow> error + flow_edge list" where
  "involving address txs =
     (if txs = [] then Inl KeyError
      else Inr (filter (\<lambda>e. sender e = JStr address \<or> recipient e = JStr address) txs))"

text \<open>The value of \<open>txs_filtered\<close> after the \<^verbatim>\<open>try\<close> statement of \<^verbatim>\<open>trace_wallet\<close>.\<close>

definition txs_filtered :: "string \<Rightarrow> flow_edge list \<Rightarrow> flow_edge list" where
  "txs_filtered address txs = (case involving address txs of Inr kept \<Rightarrow> kept | Inl e \<Rightarrow> txs)"

definition DATA_DIR :: string where
  "DATA_DIR = ''flow_data_fullhistory''"

text \<open>
  \<^verbatim>\<open>os.path.join(DATA_DIR, f"{address.replace(':', '_')}<suffix>")\<close> on a POSIX system:
  a file name that starts with a slash replaces the directory.
\<close>

definition out_path :: "string \<Rightarrow> string \<Rightarrow> string" where
  "out_path address suffix =
     (let name = map (\<lambda>c. if c = CHR '':'' then CHR ''_'' else c) address @ suffix
      in if take 1 name = ''/'' then name else DATA_DIR @ ''/'' @ name)"

text \<open>
  \<^verbatim>\<open>trace_wallet\<close>: the files are a map from path to the dataset written there; an
  exception of the fetch leaves the function before anything is written.
\<close>

definition trace_wallet ::
  "(string \<Rightarrow> int option) \<Rightarrow> api \<Rightarrow> int \<Rightarrow> string \<Rightarrow> (string \<rightharpoonup> flow_edge list)
     \<Rightarrow> error + (string \<rightharpoonup> flow_edge list)" where
  "trace_wallet int_of_str api now address files =
     (case snd (fetch_transactions_all_participants int_of_str api now address 100000) of
        Inl e \<Rightarrow> Inl e
      | Inr txs \<Rightarrow>
          Inr (files(out_path address ''_all_participants.csv'' \<mapsto> txs,
                     out_path address ''_involving.csv'' \<mapsto> txs_filtered address txs)))"

section \<open>Sample data\<close>

text \<open>
  A transaction with three inputs from two addresses and one output, stamped at the epoch,
  and a string-to-integer conversion that accepts nothing.
\<close>

definition sample_inputs :: "json list" where
  "sample_inputs =
     [JObj [(''previous_outpoint_address'', JStr ''A''), (''previous_outpoint_amount'', JInt 1)],
      JObj [(''previous_outpoint_address'', JStr ''B''), (''previous_outpoint_amount'', JInt 3)],
      JObj [(''previous_outpoint_address'', JStr ''A''), (''previous_outpoint_amount'', JInt 4)]]"

definition sample_outputs :: "json list" where
  "sample_outputs = [JObj [(''script_public_key_address'', JStr ''C''), (''amount'', JInt 800000000)]]"

definition sample_kvs :: "(string \<times> json) list" where
  "sample_kvs =
     [(''transaction_id'', JStr ''t1''), (''block_time'', JInt 0),
      (''inputs'', JList sample_inputs), (''outputs'', JList sample_outputs)]"

definition no_int :: "string \<Rightarrow> int option" where
  "no_int s = None"

text \<open>A transaction whose two inputs carry no amount.\<close>

definition zero_kvs :: "(string \<times> json) list" where
  "zero_kvs = [(''transaction_id'', JStr ''t0''),
     (''inputs'', JList [JObj [(''previous_outpoint_address'', JStr ''A'')], JObj []]),
     (''outputs'', JList sample_outputs)]"

text \<open>
  The sample transaction without \<open>block_time\<close> and with the older id field; a parser
  that accepts nothing.
\<close>

definition epoch_kvs :: "(string \<times> json) list" where
  "epoch_kvs = [(''txId'', JStr ''t2''), (''inputs'', JList sample_inputs),
                (''outputs'', JList sample_outputs)]"

definition no_parse :: "string \<Rightarrow> error + datetime" where
  "no_parse s = Inl ValueError"

text \<open>
  An API that serves the sample transaction as its only page, one that always fails, and
  the records of the sample transaction.
\<close>

definition sample_api :: api where
  "sample_api i address cursor = (if i = 0 then Some (JList [JObj sample_kvs]) else Some (JList []))"


definition sample_edges :: "flow_edge list" where
  "sample_edges =
     [\<lparr>tx_id = JStr ''t1'', timestamp = ''1970-01-01T00:00:00+00:00'', sender = JStr ''A'',
       recipient = JStr ''C'', amount_kas = 5\<rparr>,
      \<lparr>tx_id = JStr ''t1'', timestamp = ''1970-01-01T00:00:00+00:00'', sender = JStr ''B'',
       recipient = JStr ''C'', amount_kas = 3\<rparr>]"

text \<open>
  An API with two pages, the transaction without \<open>block_time\<close> first, and the records
  each variant appends for them.
\<close>

definition two_page_api :: api where
  "two_page_api i address cursor =
     (if i = 0 then Some (JList [JObj epoch_kvs])
      else if i = 1 then Some (JList [JObj sample_kvs])
      else Some (JList []))"

definition epoch_edges :: "flow_edge list" where
  "epoch_edges =
     [\<lparr>tx_id = JStr ''t2'', timestamp = ''1970-01-01T00:00:00+00:00'', sender = JStr ''A'',
       recipient = JStr ''C'', amount_kas = 5\<rparr>,
      \<lparr>tx_id = JStr ''t2'', timestamp = ''1970-01-01T00:00:00+00:00'', sender = JStr ''B'',
       recipient = JStr ''C'', amount_kas = 3\<rparr>]"


text \<open>What a parser returns for "2021-01-01T00:00:00+00:00" and for "2021-01-01T00:00:00".\<close>

definition aware_2021 :: "string \<Rightarrow> error + datetime" where
  "aware_2021 s = Inr \<lparr>year = 2021, month = 1, day = 1, hour = 0, minute = 0, second = 0,
                        microsecond = 0, tzinfo = Some 0\<rparr>"

definition naive_2021 :: "string \<Rightarrow> error + datetime" where
  "naive_2021 s = Inr \<lparr>year = 2021, month = 1, day = 1, hour = 0, minute = 0, second = 0,
                        microsecond = 0, tzinfo = None\<rparr>"

section \<open>Attribution conserves the outputs\<close>

lemma attribute_output_nonzero:
  "total_input \<noteq> 0 \<Longrightarrow>
   attribute_output txid ts total_input rcpt a summ records =
     Inr (records @ map (edge_for txid ts total_input rcpt a) summ)"
  by (induction summ arbitrary: records) (auto simp: true_div_def edge_for_def)

lemma attribute_outputs_wellformed:
  "total_input \<noteq> 0 \<Longrightarrow> map out_recipient outs = map Inr rcpts \<Longrightarrow>
   map (out_amount sti) outs = map Inr amts \<Longrightarrow>
   attribute_outputs sti txid ts total_input summ outs records =
     Inr (records @ concat (map2 (\<lambda>r a. map (edge_for txid ts total_input r a) summ) rcpts amts))"
proof (induction outs arbitrary: rcpts amts records)
  case Nil
  then show ?case by simp
next
  case (Cons out outs)
  then obtain r rcpts' where r: "rcpts = r # rcpts'" "out_recipient out = Inr r"
      "map out_recipient outs = map Inr rcpts'"
    by (cases rcpts) auto
  from Cons obtain a amts' where a: "amts = a # amts'" "out_amount sti out = Inr a"
      "map (out_amount sti) outs = map Inr amts'"
    by (cases amts) auto
  show ?case
    using Cons.IH [OF Cons.prems(1) r(3) a(3)] r a Cons.prems(1)
    by (simp add: attribute_output_nonzero)
qed





lemma process_tx_wellformed:
  assumes "tx_timestamp kvs = Inr ts"
    and "bind_err (py_iter (get_or_empty kvs ''inputs''))
           (\<lambda>inputs. build_input_summary sti inputs []) = Inr input_summary"
    and "sum_list (map snd input_summary) \<noteq> 0"
    and "py_iter (get_or_empty kvs ''outputs'') = Inr outputs"
    and "map out_recipient outputs = map Inr rcpts"
    and "map (out_amount sti) outputs = map Inr amts"
  shows "process_tx sti (JObj kvs) records =
           Inr (records @ concat (map2 (\<lambda>r a. map (edge_for (tx_id_of kvs) ts
                   (sum_list (map snd input_summary)) r a) input_summary) rcpts amts))"
  using assms(1-4) attribute_outputs_wellformed [OF assms(3,5,6)]
  by (simp add: process_tx_def Let_def)


lemma sample_timestamp: "tx_timestamp sample_kvs = Inr ''1970-01-01T00:00:00+00:00''"
  by code_simp

lemma sample_summary:
  "bind_err (py_iter (get_or_empty sample_kvs ''inputs''))
     (\<lambda>inputs. build_input_summary no_int inputs []) = Inr [(JStr ''A'', 5), (JStr ''B'', 3)]"
  by code_simp

lemma sample_outputs_iter: "py_iter (get_or_empty sample_kvs ''outputs'') = Inr sample_outputs"
  by code_simp

lemma sample_recipients: "map out_recipient sample_outputs = map Inr [JStr ''C'']"
  by code_simp

lemma sample_amounts: "map (out_amount no_int) sample_outputs = map Inr [800000000]"
  by code_simp


section \<open>Transactions without input value\<close>

lemma summary_set_sum:
  "sum_list (map snd (summary_set m k (summary_get m k 0 + n))) = sum_list (map snd m) + n"
  by (induction m) auto

lemma build_input_summary_wellformed:
  "map in_sender inputs = map Inr senders \<Longrightarrow> \<forall>s \<in> set senders. py_hashable s \<Longrightarrow>
   map (in_amount sti) inputs = map Inr amts \<Longrightarrow>
   \<exists>summ. build_input_summary sti inputs m = Inr summ
          \<and> sum_list (map snd summ) = sum_list (map snd m) + sum_list amts"
proof (induction inputs arbitrary: senders amts m)
  case Nil
  then show ?case by simp
next
  case (Cons inp inputs)
  from Cons.prems(1) obtain s senders' where s: "senders = s # senders'" "in_sender inp = Inr s"
      "map in_sender inputs = map Inr senders'"
    by (cases senders) auto
  from Cons.prems(3) obtain a amts' where a: "amts = a # amts'" "in_amount sti inp = Inr a"
      "map (in_amount sti) inputs = map Inr amts'"
    by (cases amts) auto
  from Cons.prems(2) s(1) have h: "py_hashable s" "\<forall>s \<in> set senders'. py_hashable s"
    by auto
  from Cons.IH [OF s(3) h(2) a(3), of "summary_set m s (summary_get m s 0 + a)"]
  show ?case using s a h by (auto simp: summary_set_sum)
qed

lemma py_get_not_zdiv: "py_get x k d \<noteq> Inl ZeroDivisionError"
  by (cases x) (auto simp: py_get_def)

lemma py_int_not_zdiv: "py_int sti x \<noteq> Inl ZeroDivisionError"
  by (cases x) (auto split: option.splits)

lemma py_iter_not_zdiv: "py_iter x \<noteq> Inl ZeroDivisionError"
  by (cases x) auto

lemma in_amount_not_zdiv: "in_amount sti x \<noteq> Inl ZeroDivisionError"
  using py_get_not_zdiv py_int_not_zdiv
  by (auto simp: in_amount_def bind_err_def split: sum.splits)

lemma out_amount_not_zdiv: "out_amount sti x \<noteq> Inl ZeroDivisionError"
  using py_get_not_zdiv py_int_not_zdiv
  by (auto simp: out_amount_def bind_err_def split: sum.splits)

lemma format_timestamp_not_zdiv: "format_timestamp x \<noteq> Inl ZeroDivisionError"
  by (cases x) (auto simp: format_ms_def Let_def split: prod.splits)

lemma build_input_summary_not_zdiv: "build_input_summary sti inputs m \<noteq> Inl ZeroDivisionError"
  using py_get_not_zdiv in_amount_not_zdiv
  by (induction inputs arbitrary: m) (auto simp: in_sender_def split: sum.splits)

lemma attribute_outputs_not_zdiv:
  "total_input \<noteq> 0 \<Longrightarrow>
   attribute_outputs sti txid ts total_input summ outs records \<noteq> Inl ZeroDivisionError"
  using py_get_not_zdiv out_amount_not_zdiv
  by (induction outs arbitrary: records)
     (auto simp: out_recipient_def attribute_output_nonzero split: sum.splits)

lemma process_tx_not_zdiv: "process_tx sti tx records \<noteq> Inl ZeroDivisionError"
  using format_timestamp_not_zdiv py_iter_not_zdiv build_input_summary_not_zdiv
        attribute_outputs_not_zdiv
  by (auto simp: process_tx_def tx_timestamp_def bind_err_def Let_def split: json.splits sum.splits)

lemma process_page_not_zdiv: "process_page sti page records \<noteq> Inl ZeroDivisionError"
  using process_tx_not_zdiv
  by (induction page arbitrary: records) (auto split: sum.splits)

lemma fetch_loop_not_zdiv:
  "snd (fetch_loop sti api address max_pages i cursor records) \<noteq> Inl ZeroDivisionError"
proof (induction sti api address max_pages i cursor records rule: fetch_loop.induct)
  case (1 sti api address max_pages i cursor records)
  show ?case
    using "1.IH" process_page_not_zdiv [of sti] py_get_not_zdiv
    by (subst fetch_loop.simps) (auto split: option.splits json.splits sum.splits)
qed

text \<open>
  C4. A transaction whose input amounts (a missing amount read as 0) sum to zero appends
  no record, the page loop goes on with the next entry, and no run of the page loop or of
  the whole fetch ends in ZeroDivisionError.
\<close>

theorem zero_input_total_is_skipped:
  assumes ts: "tx_timestamp kvs = Inr ts"
    and it: "py_iter (get_or_empty kvs ''inputs'') = Inr inputs"
    and sd: "map in_sender inputs = map Inr senders"
    and hs: "\<forall>s \<in> set senders. py_hashable s"
    and am: "map (in_amount sti) inputs = map Inr amts"
    and zero: "sum_list amts = 0"
  shows "process_tx sti (JObj kvs) records = Inr records
       \<and> process_page sti (JObj kvs # rest) records = process_page sti rest records
       \<and> process_page sti page recs \<noteq> Inl ZeroDivisionError
       \<and> snd (fetch_transactions_all_participants sti api now address max_pages)
            \<noteq> Inl ZeroDivisionError"
proof -
  from build_input_summary_wellformed [OF sd hs am, of "[]"] zero
  obtain summ where s: "build_input_summary sti inputs [] = Inr summ" "sum_list (map snd summ) = 0"
    by auto
  have skip: "process_tx sti (JObj kvs) records = Inr records"
    using ts it s by (simp add: process_tx_def bind_err_def)
  then have "process_page sti (JObj kvs # rest) records = process_page sti rest records"
    by simp
  with skip show ?thesis
    using process_page_not_zdiv fetch_loop_not_zdiv
    by (simp add: fetch_transactions_all_participants_def)
qed

lemma zero_h1: "tx_timestamp zero_kvs = Inr ''1970-01-01T00:00:00+00:00''" by code_simp
lemma zero_h2: "py_iter (get_or_empty zero_kvs ''inputs'') = Inr [JObj [(''previous_outpoint_address'', JStr ''A'')], JObj []]" by code_simp
lemma zero_h3: "map in_sender [JObj [(''previous_outpoint_address'', JStr ''A'')], JObj []] = map Inr [JStr ''A'', JStr ''UNKNOWN'']" by code_simp
lemma zero_h4: "map (in_amount no_int) [JObj [(''previous_outpoint_address'', JStr ''A'')], JObj []] = map Inr [0, 0]" by code_simp

theorem zero_input_total_is_skipped_witness:
  "tx_timestamp zero_kvs = Inr ''1970-01-01T00:00:00+00:00''
   \<and> py_iter (get_or_empty zero_kvs ''inputs'') = Inr [JObj [(''previous_outpoint_address'', JStr ''A'')], JObj []]
   \<and> map in_sender [JObj [(''previous_outpoint_address'', JStr ''A'')], JObj []] = map Inr [JStr ''A'', JStr ''UNKNOWN'']
   \<and> py_hashable (JStr ''A'') \<and> py_hashable (JStr ''UNKNOWN'')
   \<and> map (in_amount no_int) [JObj [(''previous_outpoint_address'', JStr ''A'')], JObj []] = map Inr [0, 0]
   \<and> sum_list [0, 0 :: int] = 0
   \<and> process_tx no_int (JObj zero_kvs) [] = Inr []
   \<and> process_page no_int [JObj zero_kvs, JObj sample_kvs] [] = process_page no_int [JObj sample_kvs] []"
proof -
  have hs: "\<forall>s \<in> set [JStr ''A'', JStr ''UNKNOWN'']. py_hashable s" by simp
  have z: "sum_list [0, 0 :: int] = 0" by simp
  show ?thesis
    using zero_input_total_is_skipped [OF zero_h1 zero_h2 zero_h3 hs zero_h4 z,
        of "[]" "[JObj sample_kvs]" "[]" "[]" "\<lambda>i a c. None" 0 "''x''" 0]
      zero_h1 zero_h2 zero_h3 zero_h4
    by simp
qed

section \<open>What every record of a transaction carries\<close>

lemma attribute_output_stamps:
  "attribute_output txid ts T r a summ records = Inr out \<Longrightarrow>
   \<exists>new. out = records @ new \<and> (\<forall>e \<in> set new. tx_id e = txid \<and> timestamp e = ts)"
proof (induction summ arbitrary: records)
  case Nil
  then show ?case by simp
next
  case (Cons p summ)
  obtain s c where p: "p = (s, c)" by (cases p)
  from Cons.prems p obtain w where w: "true_div c T = Inr w"
      "attribute_output txid ts T r a summ
         (records @ [\<lparr>tx_id = txid, timestamp = ts, sender = s, recipient = r,
                      amount_kas = of_int a * w / 100000000\<rparr>]) = Inr out"
    by (auto split: sum.splits)
  from Cons.IH [OF w(2)] show ?case by auto
qed

lemma attribute_outputs_stamps:
  "attribute_outputs sti txid ts T summ outs records = Inr out \<Longrightarrow>
   \<exists>new. out = records @ new \<and> (\<forall>e \<in> set new. tx_id e = txid \<and> timestamp e = ts)"
proof (induction outs arbitrary: records)
  case Nil
  then show ?case by simp
next
  case (Cons x outs)
  from Cons.prems obtain r a mid where m: "attribute_output txid ts T r a summ records = Inr mid"
      "attribute_outputs sti txid ts T summ outs mid = Inr out"
    by (auto split: sum.splits)
  from attribute_output_stamps [OF m(1)] Cons.IH [OF m(2)] show ?case by auto
qed

lemma process_tx_stamps:
  "tx_timestamp kvs = Inr ts \<Longrightarrow> process_tx sti (JObj kvs) records = Inr out \<Longrightarrow>
   \<exists>new. out = records @ new \<and> (\<forall>e \<in> set new. tx_id e = tx_id_of kvs \<and> timestamp e = ts)"
  by (auto simp: process_tx_def Let_def split: sum.splits if_splits dest: attribute_outputs_stamps)

lemma process_tx_Inr_timestamp:
  "process_tx sti (JObj kvs) records = Inr out \<Longrightarrow> \<exists>ts. tx_timestamp kvs = Inr ts"
  by (auto simp: process_tx_def split: sum.splits)

lemma pair_outputs_stamps:
  "pair_outputs sti txid ts s outs records = Inr out \<Longrightarrow>
   \<exists>new. out = records @ new \<and> (\<forall>e \<in> set new. tx_id e = txid \<and> timestamp e = ts)"
proof (induction outs arbitrary: records)
  case Nil
  then show ?case by simp
next
  case (Cons x outs)
  from Cons.prems obtain r a where m:
      "pair_outputs sti txid ts s outs
         (records @ [\<lparr>tx_id = txid, timestamp = ts, sender = s, recipient = r,
                      amount_kas = of_int a / 100000000\<rparr>]) = Inr out"
    by (auto split: sum.splits)
  from Cons.IH [OF m] show ?case by auto
qed

lemma pair_inputs_stamps:
  "pair_inputs sti txid ts outputs inps records = Inr out \<Longrightarrow>
   \<exists>new. out = records @ new \<and> (\<forall>e \<in> set new. tx_id e = txid \<and> timestamp e = ts)"
proof (induction inps arbitrary: records)
  case Nil
  then show ?case by simp
next
  case (Cons x inps)
  from Cons.prems obtain s outs mid where m: "pair_outputs sti txid ts s outs records = Inr mid"
      "pair_inputs sti txid ts outputs inps mid = Inr out"
    by (auto simp: bind_err_def split: sum.splits)
  from pair_outputs_stamps [OF m(1)] Cons.IH [OF m(2)] show ?case by auto
qed

lemma process_tx_cutoff_stamps:
  "process_tx_cutoff sti fi (JObj kvs) records = Inr (found, out) \<Longrightarrow>
   \<exists>new. out = records @ new \<and> (\<forall>e \<in> set new. tx_id e = tx_id_of kvs)"
  by (auto simp: process_tx_cutoff_def bind_err_def split: sum.splits if_splits
           dest!: pair_inputs_stamps)

text \<open>
  C10. The id of a transaction is the \<open>transaction_id\<close> field if present, else the
  \<open>txId\<close> field if present, else "UNKNOWN"; every record either fetch variant appends
  for the transaction carries that id.
\<close>

theorem tx_id_fallback_chain:
  "tx_id_of kvs = (case map_of kvs ''transaction_id'' of
                     Some v \<Rightarrow> v
                   | None \<Rightarrow> (case map_of kvs ''txId'' of Some v \<Rightarrow> v | None \<Rightarrow> JStr ''UNKNOWN''))
   \<and> (process_tx sti (JObj kvs) records = Inr out \<longrightarrow>
        (\<exists>new. out = records @ new \<and> (\<forall>e \<in> set new. tx_id e = tx_id_of kvs)))
   \<and> (process_tx_cutoff sti fromisoformat (JObj kvs) records = Inr (found, out') \<longrightarrow>
        (\<exists>new. out' = records @ new \<and> (\<forall>e \<in> set new. tx_id e = tx_id_of kvs)))"
proof -
  have a: "tx_id_of kvs = (case map_of kvs ''transaction_id'' of
                     Some v \<Rightarrow> v
                   | None \<Rightarrow> (case map_of kvs ''txId'' of Some v \<Rightarrow> v | None \<Rightarrow> JStr ''UNKNOWN''))"
    by (simp add: tx_id_of_def dict_get_def)
  have b: "\<exists>new. out = records @ new \<and> (\<forall>e \<in> set new. tx_id e = tx_id_of kvs)"
    if "process_tx sti (JObj kvs) records = Inr out"
    using process_tx_Inr_timestamp [OF that] process_tx_stamps [OF _ that] by blast
  show ?thesis using a b process_tx_cutoff_stamps by blast
qed

lemma epoch_run:
  "process_tx no_int (JObj epoch_kvs) [] =
     Inr [\<lparr>tx_id = JStr ''t2'', timestamp = ''1970-01-01T00:00:00+00:00'', sender = JStr ''A'',
           recipient = JStr ''C'', amount_kas = 5\<rparr>,
          \<lparr>tx_id = JStr ''t2'', timestamp = ''1970-01-01T00:00:00+00:00'', sender = JStr ''B'',
           recipient = JStr ''C'', amount_kas = 3\<rparr>]"
  by code_simp

lemma epoch_run_cutoff:
  "process_tx_cutoff no_int no_parse (JObj epoch_kvs) [] =
     Inr (False, [\<lparr>tx_id = JStr ''t2'', timestamp = ''1970-01-01T00:00:00+00:00'', sender = JStr ''A'',
           recipient = JStr ''C'', amount_kas = 8\<rparr>,
          \<lparr>tx_id = JStr ''t2'', timestamp = ''1970-01-01T00:00:00+00:00'', sender = JStr ''B'',
           recipient = JStr ''C'', amount_kas = 8\<rparr>,
          \<lparr>tx_id = JStr ''t2'', timestamp = ''1970-01-01T00:00:00+00:00'', sender = JStr ''A'',
           recipient = JStr ''C'', amount_kas = 8\<rparr>])"
  by code_simp

theorem tx_id_fallback_chain_witness:
  "tx_id_of sample_kvs = JStr ''t1'' \<and> tx_id_of epoch_kvs = JStr ''t2'' \<and> tx_id_of [] = JStr ''UNKNOWN''
   \<and> (\<exists>out. process_tx no_int (JObj epoch_kvs) [] = Inr out \<and> length out = 2
         \<and> map tx_id out = [tx_id_of epoch_kvs, tx_id_of epoch_kvs])
   \<and> (\<exists>out. process_tx_cutoff no_int no_parse (JObj epoch_kvs) [] = Inr (False, out) \<and> length out = 3
         \<and> map tx_id out = [tx_id_of epoch_kvs, tx_id_of epoch_kvs, tx_id_of epoch_kvs])"
proof -
  have ids: "tx_id_of sample_kvs = JStr ''t1''" "tx_id_of epoch_kvs = JStr ''t2''"
      "tx_id_of [] = JStr ''UNKNOWN''"
    using tx_id_fallback_chain [of sample_kvs] tx_id_fallback_chain [of epoch_kvs]
      tx_id_fallback_chain [of "[]"]
    by (simp_all add: sample_kvs_def epoch_kvs_def)
  from tx_id_fallback_chain [of epoch_kvs no_int "[]" _ no_parse False] epoch_run epoch_run_cutoff
  show ?thesis using ids by auto
qed

section \<open>Transactions without a block time\<close>

lemma format_epoch: "format_timestamp (JInt 0) = Inr ''1970-01-01T00:00:00+00:00''"
  by code_simp

lemma dict_get_other:
  "k \<noteq> k' \<Longrightarrow> dict_get ((k', v) # kvs) k d = dict_get kvs k d"
  by (simp add: dict_get_def)

text \<open>
  C8. A transaction record without a \<open>block_time\<close> field is stamped
  "1970-01-01T00:00:00+00:00": it is processed exactly as the same record with
  \<open>block_time\<close> 0, every record appended for it carries that timestamp, and when its
  inputs and outputs are well formed and its input total is not zero it is attributed in
  full, with no exception.
\<close>

theorem missing_block_time_is_epoch:
  assumes nb: "map_of kvs ''block_time'' = None"
  shows "tx_timestamp kvs = Inr ''1970-01-01T00:00:00+00:00''
       \<and> process_tx sti (JObj kvs) records
           = process_tx sti (JObj ((''block_time'', JInt 0) # kvs)) records
       \<and> (process_tx sti (JObj kvs) records = Inr out \<longrightarrow>
            (\<exists>new. out = records @ new
                 \<and> (\<forall>e \<in> set new. timestamp e = ''1970-01-01T00:00:00+00:00'')))
       \<and> (bind_err (py_iter (get_or_empty kvs ''inputs''))
             (\<lambda>inputs. build_input_summary sti inputs []) = Inr input_summary \<longrightarrow>
           sum_list (map snd input_summary) \<noteq> 0 \<longrightarrow>
           py_iter (get_or_empty kvs ''outputs'') = Inr outputs \<longrightarrow>
           map out_recipient outputs = map Inr rcpts \<longrightarrow>
           map (out_amount sti) outputs = map Inr amts \<longrightarrow>
           process_tx sti (JObj kvs) records =
             Inr (records @ concat (map2 (\<lambda>r a. map (edge_for (tx_id_of kvs)
                     ''1970-01-01T00:00:00+00:00'' (sum_list (map snd input_summary)) r a)
                     input_summary) rcpts amts)))"
proof -
  have ts: "tx_timestamp kvs = Inr ''1970-01-01T00:00:00+00:00''"
    using nb by (simp add: tx_timestamp_def dict_get_def format_epoch del: format_timestamp.simps)
  have ts': "tx_timestamp ((''block_time'', JInt 0) # kvs) = tx_timestamp kvs"
    using nb by (simp add: tx_timestamp_def dict_get_def del: format_timestamp.simps)
  have g: "get_or_empty ((''block_time'', JInt 0) # kvs) ''inputs'' = get_or_empty kvs ''inputs''"
      "get_or_empty ((''block_time'', JInt 0) # kvs) ''outputs'' = get_or_empty kvs ''outputs''"
      "tx_id_of ((''block_time'', JInt 0) # kvs) = tx_id_of kvs"
    by (simp_all add: get_or_empty_def tx_id_of_def dict_get_other)
  have same: "process_tx sti (JObj kvs) records
           = process_tx sti (JObj ((''block_time'', JInt 0) # kvs)) records"
    unfolding process_tx_def json.case ts' g by (rule refl)
  show ?thesis
    using ts same process_tx_stamps [OF ts] process_tx_wellformed [OF ts]
    by blast
qed

lemma epoch_no_block_time: "map_of epoch_kvs ''block_time'' = None"
  by (simp add: epoch_kvs_def)

lemma epoch_summary:
  "bind_err (py_iter (get_or_empty epoch_kvs ''inputs''))
     (\<lambda>inputs. build_input_summary no_int inputs []) = Inr [(JStr ''A'', 5), (JStr ''B'', 3)]"
  by code_simp

lemma epoch_outputs_iter: "py_iter (get_or_empty epoch_kvs ''outputs'') = Inr sample_outputs"
  by code_simp

theorem missing_block_time_is_epoch_witness:
  "map_of epoch_kvs ''block_time'' = None
   \<and> tx_timestamp epoch_kvs = Inr ''1970-01-01T00:00:00+00:00''
   \<and> (\<exists>out. process_tx no_int (JObj epoch_kvs) [] = Inr out \<and> length out = 2
        \<and> map timestamp out = [''1970-01-01T00:00:00+00:00'', ''1970-01-01T00:00:00+00:00''])
   \<and> bind_err (py_iter (get_or_empty epoch_kvs ''inputs''))
        (\<lambda>inputs. build_input_summary no_int inputs []) = Inr [(JStr ''A'', 5), (JStr ''B'', 3)]
   \<and> sum_list (map snd [(JStr ''A'', 5 :: int), (JStr ''B'', 3)]) \<noteq> 0
   \<and> py_iter (get_or_empty epoch_kvs ''outputs'') = Inr sample_outputs
   \<and> map out_recipient sample_outputs = map Inr [JStr ''C'']
   \<and> map (out_amount no_int) sample_outputs = map Inr [800000000]
   \<and> process_tx no_int (JObj epoch_kvs) [] =
       Inr (map (edge_for (tx_id_of epoch_kvs) ''1970-01-01T00:00:00+00:00'' 8 (JStr ''C'') 800000000)
              [(JStr ''A'', 5), (JStr ''B'', 3)])"
proof -
  note inst = missing_block_time_is_epoch [OF epoch_no_block_time, where sti = no_int and records = "[]"]
  have t: "tx_timestamp epoch_kvs = Inr ''1970-01-01T00:00:00+00:00''"
    using inst by blast
  have "\<exists>new. out = [] @ new \<and> (\<forall>e \<in> set new. timestamp e = ''1970-01-01T00:00:00+00:00'')"
    if "process_tx no_int (JObj epoch_kvs) [] = Inr out" for out
    using inst that by blast
  from this [OF epoch_run]
  have stamped: "\<exists>out. process_tx no_int (JObj epoch_kvs) [] = Inr out \<and> length out = 2
        \<and> map timestamp out = [''1970-01-01T00:00:00+00:00'', ''1970-01-01T00:00:00+00:00'']"
    using epoch_run by simp
  have nz: "sum_list (map snd [(JStr ''A'', 5 :: int), (JStr ''B'', 3)]) \<noteq> 0" by simp
  have "process_tx no_int (JObj epoch_kvs) [] =
          Inr ([] @ concat (map2 (\<lambda>r a. map (edge_for (tx_id_of epoch_kvs)
                 ''1970-01-01T00:00:00+00:00''
                 (sum_list (map snd [(JStr ''A'', 5 :: int), (JStr ''B'', 3)])) r a)
                 [(JStr ''A'', 5), (JStr ''B'', 3)]) [JStr ''C''] [800000000]))"
    using inst epoch_summary nz epoch_outputs_iter sample_recipients sample_amounts by blast
  then have emitted: "process_tx no_int (JObj epoch_kvs) [] =
       Inr (map (edge_for (tx_id_of epoch_kvs) ''1970-01-01T00:00:00+00:00'' 8 (JStr ''C'') 800000000)
              [(JStr ''A'', 5), (JStr ''B'', 3)])"
    by simp
  show ?thesis
    using t stamped epoch_no_block_time epoch_summary nz epoch_outputs_iter sample_recipients
      sample_amounts emitted
    by blast
qed

section \<open>Stepping the page walk\<close>


lemma fetch_loop_exhausted:
  "i < max_pages \<Longrightarrow> api i address cursor = Some data \<Longrightarrow>
   (\<forall>page. data = JList page \<longrightarrow> page = []) \<Longrightarrow>
   fetch_loop sti api address max_pages i cursor records = (Suc i, Inr records)"
  by (subst fetch_loop.simps) (auto split: json.splits)

lemma fetch_loop_advance:
  "i < max_pages \<Longrightarrow> api i address cursor = Some (JList data) \<Longrightarrow> data \<noteq> [] \<Longrightarrow>
   process_page sti data records = Inr records' \<Longrightarrow>
   py_get (last data) ''block_time'' cursor = Inr cursor' \<Longrightarrow>
   fetch_loop sti api address max_pages i cursor records =
     fetch_loop sti api address max_pages (Suc i) cursor' records'"
  by (subst fetch_loop.simps) simp

lemma sample_page: "process_page no_int [JObj sample_kvs] [] = Inr sample_edges"
  by code_simp

lemma sample_cursor: "py_get (last [JObj sample_kvs]) ''block_time'' (JInt now) = Inr (JInt 0)"
  by (simp add: py_get_def dict_get_def sample_kvs_def)

lemma sample_fetch:
  "fetch_transactions_all_participants no_int sample_api now address 100000 = (2, Inr sample_edges)"
proof -
  have "fetch_loop no_int sample_api address 100000 0 (JInt now) []
          = fetch_loop no_int sample_api address 100000 (Suc 0) (JInt 0) sample_edges"
    by (rule fetch_loop_advance [OF _ _ _ sample_page sample_cursor]) (simp_all add: sample_api_def)
  also have "\<dots> = (Suc (Suc 0), Inr sample_edges)"
    by (rule fetch_loop_exhausted [where data = "JList []"]) (simp_all add: sample_api_def)
  finally show ?thesis by (simp add: fetch_transactions_all_participants_def)
qed


section \<open>Projection and the files written\<close>

lemma out_path_differ:
  "out_path address ''_all_participants.csv'' \<noteq> out_path address ''_involving.csv''"
  by (cases address) (simp_all add: out_path_def Let_def)

text \<open>
  C7. The filtered dataset of \<^verbatim>\<open>trace_wallet\<close> is the full dataset restricted, in order,
  to the records whose sender or recipient is the address; filtering it again changes
  nothing; and it is what \<^verbatim>\<open>trace_wallet\<close> writes to the second file, beside the full
  dataset in the first.
\<close>

theorem projection_is_filter:
  "txs_filtered X ds = filter (\<lambda>e. sender e = JStr X \<or> recipient e = JStr X) ds
   \<and> txs_filtered X (txs_filtered X ds) = txs_filtered X ds
   \<and> (trace_wallet sti api now X files = Inr files' \<longrightarrow>
        (\<exists>txs. snd (fetch_transactions_all_participants sti api now X 100000) = Inr txs
             \<and> files' (out_path X ''_all_participants.csv'') = Some txs
             \<and> files' (out_path X ''_involving.csv'')
                 = Some (filter (\<lambda>e. sender e = JStr X \<or> recipient e = JStr X) txs)))"
proof -
  have f: "txs_filtered Y xs = filter (\<lambda>e. sender e = JStr Y \<or> recipient e = JStr Y) xs" for Y xs
    by (simp add: txs_filtered_def involving_def)
  note ne = out_path_differ [of X]
  show ?thesis
    using ne by (auto simp: f trace_wallet_def split: sum.splits)
qed

lemma sample_trace:
  "trace_wallet no_int sample_api 5 ''A'' Map.empty
     = Inr [out_path ''A'' ''_all_participants.csv'' \<mapsto> sample_edges,
            out_path ''A'' ''_involving.csv'' \<mapsto> txs_filtered ''A'' sample_edges]"
  by (simp add: trace_wallet_def sample_fetch)

theorem projection_is_filter_witness:
  "trace_wallet no_int sample_api 5 ''A'' Map.empty
     = Inr [out_path ''A'' ''_all_participants.csv'' \<mapsto> sample_edges,
            out_path ''A'' ''_involving.csv'' \<mapsto> txs_filtered ''A'' sample_edges]
   \<and> [out_path ''A'' ''_all_participants.csv'' \<mapsto> sample_edges,
       out_path ''A'' ''_involving.csv'' \<mapsto> txs_filtered ''A'' sample_edges]
         (out_path ''A'' ''_involving.csv'') = Some [hd sample_edges]
   \<and> txs_filtered ''A'' sample_edges = [hd sample_edges]
   \<and> txs_filtered ''A'' (txs_filtered ''A'' sample_edges) = [hd sample_edges]"
proof -
  note inst = projection_is_filter [of "''A''" sample_edges no_int sample_api 5 Map.empty
      "[out_path ''A'' ''_all_participants.csv'' \<mapsto> sample_edges,
        out_path ''A'' ''_involving.csv'' \<mapsto> txs_filtered ''A'' sample_edges]"]
  have "txs_filtered ''A'' sample_edges
          = filter (\<lambda>e. sender e = JStr ''A'' \<or> recipient e = JStr ''A'') sample_edges"
    using inst by blast
  then have a: "txs_filtered ''A'' sample_edges = [hd sample_edges]"
    by (simp add: sample_edges_def)
  have "txs_filtered ''A'' (txs_filtered ''A'' sample_edges) = txs_filtered ''A'' sample_edges"
    using inst by blast
  with a have b: "txs_filtered ''A'' (txs_filtered ''A'' sample_edges) = [hd sample_edges]"
    by simp
  have c: "[out_path ''A'' ''_all_participants.csv'' \<mapsto> sample_edges,
       out_path ''A'' ''_involving.csv'' \<mapsto> txs_filtered ''A'' sample_edges]
         (out_path ''A'' ''_involving.csv'') = Some [hd sample_edges]"
    using inst sample_trace a by simp
  show ?thesis using sample_trace a b c by blast
qed



section \<open>Cursor and termination of the page walk\<close>


lemma fetch_loop_cutoff_exhausted:
  "i < max_pages \<Longrightarrow> api i address cursor = Some data \<Longrightarrow>
   (\<forall>page. data = JList page \<longrightarrow> page = []) \<Longrightarrow>
   fetch_loop_cutoff sti fi api address max_pages i cursor records = (Suc i, Inr records)"
  by (subst fetch_loop_cutoff.simps) (auto split: json.splits)


lemma epoch_page: "process_page no_int [JObj epoch_kvs] [] = Inr epoch_edges"
  by code_simp

lemma second_page: "process_page no_int [JObj sample_kvs] epoch_edges = Inr (epoch_edges @ sample_edges)"
  by code_simp




lemma fetch_loop_count:
  "fst (fetch_loop sti api address max_pages i cursor records) \<le> max max_pages i"
proof (induction sti api address max_pages i cursor records rule: fetch_loop.induct)
  case (1 sti api address max_pages i cursor records)
  show ?case
    using "1.IH"
    by (subst fetch_loop.simps) (auto split: option.splits json.splits sum.splits)
qed

text \<open>
  C6. The page walk issues at most \<open>max_pages\<close> requests; a response that is not a list
  or is the empty list ends it at once with the records collected so far; and when the
  first two pages are processed and the third is empty, the walk returns the records of
  exactly those two pages after three requests.
\<close>

theorem fetch_loop_bounded:
  "fst (fetch_transactions_all_participants sti api now address max_pages) \<le> max_pages
   \<and> (i < max_pages \<longrightarrow> api i address cursor = Some data \<longrightarrow>
        (\<forall>page. data = JList page \<longrightarrow> page = []) \<longrightarrow>
        fetch_loop sti api address max_pages i cursor records = (Suc i, Inr records))
   \<and> (3 \<le> max_pages \<longrightarrow>
        api 0 address (JInt now) = Some (JList page_a) \<longrightarrow> page_a \<noteq> [] \<longrightarrow>
        process_page sti page_a [] = Inr records_a \<longrightarrow>
        py_get (last page_a) ''block_time'' (JInt now) = Inr cursor_a \<longrightarrow>
        api 1 address cursor_a = Some (JList page_b) \<longrightarrow> page_b \<noteq> [] \<longrightarrow>
        process_page sti page_b records_a = Inr records_b \<longrightarrow>
        py_get (last page_b) ''block_time'' cursor_a = Inr cursor_b \<longrightarrow>
        api 2 address cursor_b = Some (JList []) \<longrightarrow>
        fetch_transactions_all_participants sti api now address max_pages = (3, Inr records_b))"
proof (intro conjI impI)
  show "fst (fetch_transactions_all_participants sti api now address max_pages) \<le> max_pages"
    using fetch_loop_count [of sti api address max_pages 0 "JInt now" "[]"]
    by (simp add: fetch_transactions_all_participants_def)
next
  assume "i < max_pages" "api i address cursor = Some data" "\<forall>page. data = JList page \<longrightarrow> page = []"
  then show "fetch_loop sti api address max_pages i cursor records = (Suc i, Inr records)"
    by (rule fetch_loop_exhausted)
next
  assume m: "3 \<le> max_pages"
    and p1: "api 0 address (JInt now) = Some (JList page_a)" "page_a \<noteq> []"
      "process_page sti page_a [] = Inr records_a"
      "py_get (last page_a) ''block_time'' (JInt now) = Inr cursor_a"
    and p2: "api 1 address cursor_a = Some (JList page_b)" "page_b \<noteq> []"
      "process_page sti page_b records_a = Inr records_b"
      "py_get (last page_b) ''block_time'' cursor_a = Inr cursor_b"
    and p3: "api 2 address cursor_b = Some (JList [])"
  from m have lt: "0 < max_pages" "Suc 0 < max_pages" "Suc (Suc 0) < max_pages" by simp_all
  have "fetch_loop sti api address max_pages 0 (JInt now) []
          = fetch_loop sti api address max_pages (Suc 0) cursor_a records_a"
    using lt(1) p1 by (rule fetch_loop_advance)
  also have "\<dots> = fetch_loop sti api address max_pages (Suc (Suc 0)) cursor_b records_b"
    using lt(2) p2 by (simp add: fetch_loop_advance)
  also have "\<dots> = (Suc (Suc (Suc 0)), Inr records_b)"
    using lt(3) p3 by (simp add: fetch_loop_exhausted numeral_2_eq_2)
  finally show "fetch_transactions_all_participants sti api now address max_pages = (3, Inr records_b)"
    by (simp add: fetch_transactions_all_participants_def numeral_3_eq_3)
qed

lemma epoch_cursor: "py_get (last [JObj epoch_kvs]) ''block_time'' (JInt 7) = Inr (JInt 7)"
  by (simp add: py_get_def dict_get_def epoch_kvs_def)

lemma sample_cursor_7: "py_get (last [JObj sample_kvs]) ''block_time'' (JInt 7) = Inr (JInt 0)"
  by (simp add: py_get_def dict_get_def sample_kvs_def)

theorem fetch_loop_bounded_witness:
  "(3::nat) \<le> 100000
   \<and> two_page_api 0 ''A'' (JInt 7) = Some (JList [JObj epoch_kvs])
   \<and> process_page no_int [JObj epoch_kvs] [] = Inr epoch_edges
   \<and> two_page_api 1 ''A'' (JInt 7) = Some (JList [JObj sample_kvs])
   \<and> process_page no_int [JObj sample_kvs] epoch_edges = Inr (epoch_edges @ sample_edges)
   \<and> two_page_api 2 ''A'' (JInt 0) = Some (JList [])
   \<and> fetch_transactions_all_participants no_int two_page_api 7 ''A'' 100000
        = (3, Inr (epoch_edges @ sample_edges))
   \<and> fetch_loop no_int two_page_api ''A'' 100000 2 (JInt 0) (epoch_edges @ sample_edges)
        = (3, Inr (epoch_edges @ sample_edges))
   \<and> fst (fetch_transactions_all_participants no_int two_page_api 7 ''A'' 100000) \<le> 100000"
proof -
  have a0: "two_page_api 0 ''A'' (JInt 7) = Some (JList [JObj epoch_kvs])"
    and a1: "two_page_api 1 ''A'' (JInt 7) = Some (JList [JObj sample_kvs])"
    and a2: "two_page_api 2 ''A'' (JInt 0) = Some (JList [])"
    by (simp_all add: two_page_api_def)
  have m: "(3::nat) \<le> 100000" and i2: "(2::nat) < 100000" by simp_all
  have e: "\<forall>page. JList [] = JList page \<longrightarrow> page = []" by simp
  note inst = fetch_loop_bounded [where sti = no_int and api = two_page_api and now = 7
      and address = "''A''" and max_pages = 100000 and i = 2 and cursor = "JInt 0"
      and data = "JList []" and records = "epoch_edges @ sample_edges"
      and page_a = "[JObj epoch_kvs]" and records_a = epoch_edges and cursor_a = "JInt 7"
      and page_b = "[JObj sample_kvs]" and records_b = "epoch_edges @ sample_edges"
      and cursor_b = "JInt 0"]
  have r: "fetch_transactions_all_participants no_int two_page_api 7 ''A'' 100000
        = (3, Inr (epoch_edges @ sample_edges))"
    using inst m a0 a1 a2 epoch_page second_page epoch_cursor sample_cursor_7 by simp
  have s: "fetch_loop no_int two_page_api ''A'' 100000 2 (JInt 0) (epoch_edges @ sample_edges)
        = (3, Inr (epoch_edges @ sample_edges))"
    using inst i2 a2 e by simp
  have b: "fst (fetch_transactions_all_participants no_int two_page_api 7 ''A'' 100000) \<le> 100000"
    using inst by blast
  show ?thesis using m a0 a1 a2 epoch_page second_page r s b by blast
qed

section \<open>The cutoff test\<close>

text \<open>
  C3. What \<^verbatim>\<open>is_before_cutoff\<close> returns and prints: when the string does not parse,
  False and the diagnostic; when it parses to a naive datetime, whether that is earlier than
  the cutoff, and nothing; when it parses to an aware datetime, as every string of
  \<^verbatim>\<open>format_timestamp\<close> does, the comparison with the naive cutoff raises TypeError, so
  False and the diagnostic again, whatever the date.
\<close>

theorem is_before_cutoff_cases:
  "(fromisoformat (replace_Z stamp) = Inl e \<longrightarrow>
      is_before_cutoff fromisoformat stamp
        = (False, [''Timestamp parsing failed: '' @ stamp]))
   \<and> (fromisoformat (replace_Z stamp) = Inr dt \<longrightarrow> tzinfo dt = None \<longrightarrow>
        is_before_cutoff fromisoformat stamp = (wall_us dt < wall_us CUTOFF_DATE, []))
   \<and> (fromisoformat (replace_Z stamp) = Inr dt \<longrightarrow> tzinfo dt = Some off \<longrightarrow>
        is_before_cutoff fromisoformat stamp
          = (False, [''Timestamp parsing failed: '' @ stamp]))"
  by (simp add: is_before_cutoff_def bind_err_def datetime_lt_def CUTOFF_DATE_def)

lemma format_2021: "format_timestamp (JInt 1609459200000) = Inr ''2021-01-01T00:00:00+00:00''"
  by code_simp

lemma format_cutoff: "format_timestamp (JInt 1640995200000) = Inr ''2022-01-01T00:00:00+00:00''"
  by code_simp

lemma wall_2021: "wall_us \<lparr>year = 2021, month = 1, day = 1, hour = 0, minute = 0, second = 0,
                        microsecond = 0, tzinfo = tz\<rparr> < wall_us CUTOFF_DATE"
  by (simp add: wall_us_def days_from_civil_def CUTOFF_DATE_def)

theorem is_before_cutoff_cases_witness:
  "format_timestamp (JInt 1609459200000) = Inr ''2021-01-01T00:00:00+00:00''
   \<and> is_before_cutoff aware_2021 ''2021-01-01T00:00:00+00:00''
        = (False, [''Timestamp parsing failed: 2021-01-01T00:00:00+00:00''])
   \<and> is_before_cutoff naive_2021 ''2021-01-01T00:00:00''  = (True, [])
   \<and> is_before_cutoff no_parse ''yesterday'' = (False, [''Timestamp parsing failed: yesterday''])"
proof -
  have a: "is_before_cutoff aware_2021 ''2021-01-01T00:00:00+00:00''
        = (False, [''Timestamp parsing failed: 2021-01-01T00:00:00+00:00''])"
    using is_before_cutoff_cases [of aware_2021 "''2021-01-01T00:00:00+00:00''" _
        "\<lparr>year = 2021, month = 1, day = 1, hour = 0, minute = 0, second = 0,
                        microsecond = 0, tzinfo = Some 0\<rparr>" 0]
    by (simp add: aware_2021_def)
  have b: "is_before_cutoff naive_2021 ''2021-01-01T00:00:00''  = (True, [])"
    using is_before_cutoff_cases [of naive_2021 "''2021-01-01T00:00:00''" _
        "\<lparr>year = 2021, month = 1, day = 1, hour = 0, minute = 0, second = 0,
                        microsecond = 0, tzinfo = None\<rparr>"] wall_2021 [of None]
    by (simp add: naive_2021_def)
  have c: "is_before_cutoff no_parse ''yesterday'' = (False, [''Timestamp parsing failed: yesterday''])"
    using is_before_cutoff_cases [of no_parse "''yesterday''" ValueError]
    by (simp add: no_parse_def)
  show ?thesis using format_2021 a b c by blast
qed

section \<open>The walk of the entry point and the cutoff\<close>

text \<open>
  C2, as the code has it. The walk of \<^verbatim>\<open>trace_wallet\<close> never tests the cutoff: a
  transaction with well-formed inputs and outputs and an input total that is not zero is
  attributed in full whatever its timestamp, the page loop goes on with the entries after
  it, and the first file written holds exactly the records the walk returned.
\<close>

theorem walk_has_no_cutoff:
  assumes ts: "tx_timestamp kvs = Inr ts"
    and summ: "bind_err (py_iter (get_or_empty kvs ''inputs''))
                 (\<lambda>inputs. build_input_summary sti inputs []) = Inr input_summary"
    and nz: "sum_list (map snd input_summary) \<noteq> 0"
    and outs: "py_iter (get_or_empty kvs ''outputs'') = Inr outputs"
    and rc: "map out_recipient outputs = map Inr rcpts"
    and am: "map (out_amount sti) outputs = map Inr amts"
  shows "process_page sti (JObj kvs # rest) records =
           process_page sti rest
             (records @ concat (map2 (\<lambda>r a. map (edge_for (tx_id_of kvs) ts
                 (sum_list (map snd input_summary)) r a) input_summary) rcpts amts))
       \<and> (trace_wallet sti api now address files = Inr files' \<longrightarrow>
            (\<exists>txs. snd (fetch_transactions_all_participants sti api now address 100000) = Inr txs
                 \<and> files' (out_path address ''_all_participants.csv'') = Some txs))"
proof -
  note ne = out_path_differ [of address]
  show ?thesis
    using process_tx_wellformed [OF ts summ nz outs rc am] ne
    by (auto simp: trace_wallet_def split: sum.splits)
qed

lemma sample_trace_any:
  "trace_wallet no_int sample_api now ''A'' Map.empty
     = Inr [out_path ''A'' ''_all_participants.csv'' \<mapsto> sample_edges,
            out_path ''A'' ''_involving.csv'' \<mapsto> [hd sample_edges]]"
  by (simp add: trace_wallet_def sample_fetch txs_filtered_def involving_def sample_edges_def)

lemma sample_stamps:
  "map timestamp sample_edges = [''1970-01-01T00:00:00+00:00'', ''1970-01-01T00:00:00+00:00'']"
  by (simp add: sample_edges_def)

theorem walk_has_no_cutoff_witness:
  "tx_timestamp sample_kvs = Inr ''1970-01-01T00:00:00+00:00''
   \<and> bind_err (py_iter (get_or_empty sample_kvs ''inputs''))
        (\<lambda>inputs. build_input_summary no_int inputs []) = Inr [(JStr ''A'', 5), (JStr ''B'', 3)]
   \<and> sum_list (map snd [(JStr ''A'', 5 :: int), (JStr ''B'', 3)]) \<noteq> 0
   \<and> py_iter (get_or_empty sample_kvs ''outputs'') = Inr sample_outputs
   \<and> map out_recipient sample_outputs = map Inr [JStr ''C'']
   \<and> map (out_amount no_int) sample_outputs = map Inr [800000000]
   \<and> process_page no_int [JObj sample_kvs, JObj epoch_kvs] []
        = process_page no_int [JObj epoch_kvs]
            (map (edge_for (JStr ''t1'') ''1970-01-01T00:00:00+00:00'' 8 (JStr ''C'') 800000000)
               [(JStr ''A'', 5), (JStr ''B'', 3)])
   \<and> trace_wallet no_int sample_api 1700000000000 ''A'' Map.empty
        = Inr [out_path ''A'' ''_all_participants.csv'' \<mapsto> sample_edges,
               out_path ''A'' ''_involving.csv'' \<mapsto> [hd sample_edges]]
   \<and> [out_path ''A'' ''_all_participants.csv'' \<mapsto> sample_edges,
       out_path ''A'' ''_involving.csv'' \<mapsto> [hd sample_edges]]
         (out_path ''A'' ''_all_participants.csv'') = Some sample_edges"
proof -
  have nz: "sum_list (map snd [(JStr ''A'', 5 :: int), (JStr ''B'', 3)]) \<noteq> 0" by simp
  have tid: "tx_id_of sample_kvs = JStr ''t1''"
    by (simp add: tx_id_of_def dict_get_def sample_kvs_def)
  note inst = walk_has_no_cutoff [OF sample_timestamp sample_summary nz sample_outputs_iter
      sample_recipients sample_amounts, where rest = "[JObj epoch_kvs]" and records = "[]"
      and api = sample_api and now = 1700000000000 and address = "''A''" and files = Map.empty
      and files' = "[out_path ''A'' ''_all_participants.csv'' \<mapsto> sample_edges,
               out_path ''A'' ''_involving.csv'' \<mapsto> [hd sample_edges]]"]
  have p: "process_page no_int [JObj sample_kvs, JObj epoch_kvs] []
        = process_page no_int [JObj epoch_kvs]
            (map (edge_for (JStr ''t1'') ''1970-01-01T00:00:00+00:00'' 8 (JStr ''C'') 800000000)
               [(JStr ''A'', 5), (JStr ''B'', 3)])"
    using inst by (simp add: tid)
  have w: "[out_path ''A'' ''_all_participants.csv'' \<mapsto> sample_edges,
       out_path ''A'' ''_involving.csv'' \<mapsto> [hd sample_edges]]
         (out_path ''A'' ''_all_participants.csv'') = Some sample_edges"
    using inst sample_trace_any [of 1700000000000] sample_fetch [of 1700000000000 "''A''"]
    by simp
  show ?thesis
    using sample_timestamp sample_summary nz sample_outputs_iter sample_recipients sample_amounts
      p w sample_trace_any [of 1700000000000]
    by blast
qed

text \<open>
  C2, as stated, fails: the cutoff instant is block time 1640995200000; a page holding the
  sample transaction, of block time 0, makes \<^verbatim>\<open>trace_wallet\<close> write two records stamped
  1970-01-01.
\<close>

theorem trace_wallet_keeps_old_edges_counterexample:
  "format_timestamp (JInt 1640995200000) = Inr ''2022-01-01T00:00:00+00:00''
   \<and> dict_get sample_kvs ''block_time'' (JInt 0) = JInt 0
   \<and> tx_timestamp sample_kvs = Inr ''1970-01-01T00:00:00+00:00''
   \<and> sample_api 0 ''A'' (JInt 1700000000000) = Some (JList [JObj sample_kvs])
   \<and> trace_wallet no_int sample_api 1700000000000 ''A'' Map.empty
        = Inr [out_path ''A'' ''_all_participants.csv'' \<mapsto> sample_edges,
               out_path ''A'' ''_involving.csv'' \<mapsto> [hd sample_edges]]
   \<and> map timestamp sample_edges = [''1970-01-01T00:00:00+00:00'', ''1970-01-01T00:00:00+00:00'']"
proof -
  have b: "dict_get sample_kvs ''block_time'' (JInt 0) = JInt 0"
    by (simp add: dict_get_def sample_kvs_def)
  have a: "sample_api 0 ''A'' (JInt 1700000000000) = Some (JList [JObj sample_kvs])"
    by (simp add: sample_api_def)
  show ?thesis
    using format_cutoff b sample_timestamp a sample_trace_any [of 1700000000000] sample_stamps
    by blast
qed

end
